theory Spec2Isabelle
  imports Main "HOL-Library.Sublist"
begin

section \<open>The bokeh-enum directive (bokeh/sphinxext/bokeh_enum.py)\<close>

text \<open>
  The module defines one directive class, \<^verbatim>\<open>BokehEnumDirective\<close>, whose method
  \<^verbatim>\<open>run\<close> imports a module, looks one attribute up, formats its \<^verbatim>\<open>repr\<close>,
  renders the template \<^verbatim>\<open>ENUM_DETAIL\<close> and hands the rendered lines to the
  reStructuredText parser. A Python string is a list of its characters; \<^verbatim>\<open>len\<close>
  is \<^const>\<open>length\<close>.
\<close>

subsection \<open>Python values and exceptions\<close>

text \<open>
  The exceptions that can leave \<^verbatim>\<open>run\<close> or are caught on the way.
  \<^verbatim>\<open>IndexError\<close> belongs to \<^verbatim>\<open>self.arguments[0]\<close>, \<^verbatim>\<open>KeyError\<close> to
  \<^verbatim>\<open>self.options['module']\<close>, \<^verbatim>\<open>SphinxError\<close> is raised at line 61.
  \<open>ImportError\<close> stands for every exception that \<^verbatim>\<open>except ImportError\<close> catches
  (the class and its subclasses), \<open>AttributeError\<close> for every exception that the
  three-argument \<^verbatim>\<open>getattr\<close> catches, and \<open>OtherError\<close>, with the class name,
  for an exception of any other class raised by code that \<^verbatim>\<open>run\<close> calls.
\<close>

datatype py_exception =
    ImportError
  | AttributeError
  | IndexError
  | KeyError string
  | SphinxError string
  | OtherError string

text \<open>
  The object bound to an attribute of a module is opaque to the directive: only its
  \<^verbatim>\<open>repr\<close> is read. \<open>NoneObject\<close> is Python's \<^verbatim>\<open>None\<close>.
\<close>

datatype 'o py_object = NoneObject | Object 'o

text \<open>
  A module, seen through attribute access: the object bound to a name, or the
  exception the access raises (\<open>AttributeError\<close> when the module has no such
  attribute).
\<close>

type_synonym 'o py_module = "string \<Rightarrow> py_exception + 'o py_object"

text \<open>
  The variable \<^verbatim>\<open>fullrepr\<close> holds a string at line 65, then the list of lines
  returned by \<^verbatim>\<open>wrapper.wrap\<close> (line 68) or \<^verbatim>\<open>None\<close> (line 71).
\<close>

datatype py_value = PyNone | PyStr string | PyList "string list"

subsection \<open>The directive and what it calls\<close>

text \<open>
  \<^verbatim>\<open>self.arguments\<close>, \<^verbatim>\<open>self.options\<close>, \<^verbatim>\<open>self.content\<close> and
  \<^verbatim>\<open>self.state\<close> of a directive instance. The class asks for one required
  argument (\<^verbatim>\<open>required_arguments = 1\<close>), so docutils calls \<^verbatim>\<open>run\<close> with a
  non-empty argument list; the option \<^verbatim>\<open>module\<close> is declared in
  \<^verbatim>\<open>option_spec\<close> and may be missing from the dictionary.
\<close>

record 's directive =
  arguments :: "string list"
  options :: "string \<rightharpoonup> string"
  content :: "string list"
  state :: 's

text \<open>
  \<^verbatim>\<open>textwrap.TextWrapper\<close> with the attributes the module sets or leaves at
  their defaults, and the module-level instance of line 42.
\<close>

record text_wrapper =
  width :: nat
  initial_indent :: string
  subsequent_indent :: string

definition wrapper :: text_wrapper where
  "wrapper = \<lparr>width = 70, initial_indent = [], subsequent_indent = ''    ''\<rparr>"

text \<open>The keyword arguments of \<^verbatim>\<open>ENUM_DETAIL.render\<close> (lines 73 to 79).\<close>

record enum_detail_kwargs =
  kw_name :: string
  kw_module :: string
  kw_content :: "string list"
  kw_shortrepr :: string
  kw_fullrepr :: py_value

text \<open>
  A \<^verbatim>\<open>ViewList\<close>: each entry is a line with the source and offset that
  \<^verbatim>\<open>append\<close> records for it.
\<close>

type_synonym view_list = "(string \<times> string \<times> nat) list"

text \<open>
  Everything \<^verbatim>\<open>run\<close> calls outside the file is a parameter: the import
  machinery, \<^verbatim>\<open>repr\<close> of an object and of a string (the \<^verbatim>\<open>%r\<close>
  conversion), \<^verbatim>\<open>TextWrapper.wrap\<close>, the template \<^verbatim>\<open>ENUM_DETAIL\<close> of
  \<^verbatim>\<open>bokeh/sphinxext/templates\<close>, and \<^verbatim>\<open>nested_parse_with_titles\<close>, which
  fills a fresh paragraph node whose children are returned. The import, the
  \<^verbatim>\<open>__repr__\<close> of the object, the template and the parser run code from
  elsewhere and may raise; the \<^verbatim>\<open>%r\<close> conversion of a string and the wrapping
  of a string return.
\<close>

record ('o, 's, 'n) environment =
  import_module :: "string \<Rightarrow> py_exception + 'o py_module"
  repr_object :: "'o \<Rightarrow> py_exception + string"
  repr_str :: "string \<Rightarrow> string"
  textwrap_wrap :: "text_wrapper \<Rightarrow> string \<Rightarrow> string list"
  ENUM_DETAIL_render :: "enum_detail_kwargs \<Rightarrow> py_exception + string"
  nested_parse_with_titles :: "'s \<Rightarrow> view_list \<Rightarrow> py_exception + 'n list"

subsection \<open>Built-ins\<close>

text \<open>
  \<^verbatim>\<open>getattr(module, name, default)\<close>: an \<^verbatim>\<open>AttributeError\<close> of the access
  gives the default, any other exception propagates.
\<close>

definition getattr ::
    "'o py_module \<Rightarrow> string \<Rightarrow> 'o py_object \<Rightarrow> py_exception + 'o py_object" where
  "getattr m n dflt =
     (case m n of
        Inl AttributeError \<Rightarrow> Inr dflt
      | Inl e \<Rightarrow> Inl e
      | Inr v \<Rightarrow> Inr v)"

text \<open>
  \<^verbatim>\<open>repr(x)\<close>: \<^verbatim>\<open>repr(None)\<close> is the string \<^verbatim>\<open>None\<close>; for any other
  object it is what the object's \<^verbatim>\<open>__repr__\<close> returns or raises.
\<close>

fun py_repr :: "('o, 's, 'n) environment \<Rightarrow> 'o py_object \<Rightarrow> py_exception + string" where
  "py_repr env NoneObject = Inr ''None''"
| "py_repr env (Object x) = repr_object env x"

text \<open>
  The slices \<^verbatim>\<open>s[:n]\<close> and \<^verbatim>\<open>s[-n:]\<close> for \<open>n > 0\<close>: a string shorter than
  \<open>n\<close> is returned whole by both.
\<close>

definition slice_to :: "nat \<Rightarrow> string \<Rightarrow> string" where
  "slice_to n s = take n s"

definition slice_last :: "nat \<Rightarrow> string \<Rightarrow> string" where
  "slice_last n s = drop (length s - n) s"

text \<open>\<^verbatim>\<open>s.split(sep)\<close> for a separator of one character.\<close>

fun py_split :: "char \<Rightarrow> string \<Rightarrow> string list" where
  "py_split sep [] = [[]]"
| "py_split sep (c # cs) =
     (if c = sep then [] # py_split sep cs
      else (case py_split sep cs of
              [] \<Rightarrow> [[c]]
            | l # ls \<Rightarrow> (c # l) # ls))"

text \<open>\<^verbatim>\<open>sep.join(lines)\<close>, the inverse used to state what the split keeps.\<close>

fun py_join :: "char \<Rightarrow> string list \<Rightarrow> string" where
  "py_join sep [] = []"
| "py_join sep [l] = l"
| "py_join sep (l # ls) = l @ sep # py_join sep ls"

subsection \<open>The method run\<close>

text \<open>The message of line 61, built with two \<^verbatim>\<open>%r\<close> conversions.\<close>

definition import_error_message :: "('o, 's, 'n) environment \<Rightarrow> string \<Rightarrow> string \<Rightarrow> string" where
  "import_error_message env name m =
     ''Could not generate reference docs for '' @ repr_str env name
       @ '': could not import module '' @ repr_str env m"

text \<open>Lines 66 to 71: the pair (\<^verbatim>\<open>shortrepr\<close>, \<^verbatim>\<open>fullrepr\<close>).\<close>

definition repr_forms :: "('o, 's, 'n) environment \<Rightarrow> string \<Rightarrow> string \<times> py_value" where
  "repr_forms env fullrepr =
     (if 180 < length fullrepr
      then (slice_to 40 fullrepr @ '' .... '' @ slice_last 40 fullrepr,
            PyList (textwrap_wrap env wrapper fullrepr))
      else (fullrepr, PyNone))"

text \<open>
  Lines 56 to 79, up to the call of the template: the keyword arguments that
  \<^verbatim>\<open>run\<close> passes to \<^verbatim>\<open>ENUM_DETAIL.render\<close>, or the exception raised before.
  Only the import stands inside the \<^verbatim>\<open>try\<close>; the handler catches
  \<^verbatim>\<open>ImportError\<close> and nothing else.
\<close>

definition render_kwargs ::
    "('o, 's, 'n) environment \<Rightarrow> 's directive \<Rightarrow> py_exception + enum_detail_kwargs" where
  "render_kwargs env d =
     (case arguments d of
        [] \<Rightarrow> Inl IndexError
      | name # _ \<Rightarrow>
          (case options d ''module'' of
             None \<Rightarrow> Inl (KeyError ''module'')
           | Some m \<Rightarrow>
               (case import_module env m of
                  Inl ImportError \<Rightarrow> Inl (SphinxError (import_error_message env name m))
                | Inl e \<Rightarrow> Inl e
                | Inr md \<Rightarrow>
                    (case getattr md name NoneObject of
                       Inl e \<Rightarrow> Inl e
                     | Inr enum \<Rightarrow>
                         (case py_repr env enum of
                            Inl e \<Rightarrow> Inl e
                          | Inr fullrepr \<Rightarrow>
                              (let (shortrepr, fullrepr') = repr_forms env fullrepr
                               in Inr \<lparr>kw_name = name, kw_module = m,
                                        kw_content = content d,
                                        kw_shortrepr = shortrepr,
                                        kw_fullrepr = fullrepr'\<rparr>))))))"

text \<open>Lines 81 to 83: the loop appending each line to the \<^verbatim>\<open>ViewList\<close>.\<close>

fun append_lines :: "view_list \<Rightarrow> string list \<Rightarrow> view_list" where
  "append_lines result [] = result"
| "append_lines result (line # lines) =
     append_lines (result @ [(line, ''<bokeh-prop>'', 0)]) lines"

text \<open>
  Lines 73 to 87 for given keyword arguments: render, split, parse. An exception of
  the template or of the parser leaves \<^verbatim>\<open>run\<close> as it is.
\<close>

definition parse_rendered ::
    "('o, 's, 'n) environment \<Rightarrow> 's directive \<Rightarrow> enum_detail_kwargs
       \<Rightarrow> py_exception + 'n list" where
  "parse_rendered env d kw =
     (case ENUM_DETAIL_render env kw of
        Inl e \<Rightarrow> Inl e
      | Inr rst_text \<Rightarrow>
          (let result = append_lines [] (py_split (CHR 0x0A) rst_text)
           in nested_parse_with_titles env (state d) result))"

definition run :: "('o, 's, 'n) environment \<Rightarrow> 's directive \<Rightarrow> py_exception + 'n list" where
  "run env d =
     (case render_kwargs env d of
        Inl e \<Rightarrow> Inl e
      | Inr kw \<Rightarrow> parse_rendered env d kw)"

subsection \<open>A sample environment\<close>

text \<open>
  A concrete setting in which the definitions can be evaluated. An object is
  identified with what its \<^verbatim>\<open>__repr__\<close> does; one module can be imported, an
  empty module name makes the import raise \<^verbatim>\<open>ValueError\<close>, any other name
  \<^verbatim>\<open>ImportError\<close>. The template, the wrapper and the parser are small stand-ins;
  the \<^verbatim>\<open>%r\<close> conversion is Python's for strings of printable ASCII characters:
  quotes around the string, a backslash before each backslash and each quote of the
  kind chosen.
\<close>

definition baz_repr :: string where
  "baz_repr = ''Enumeration(a, b, c)''"

definition big_repr :: string where
  "big_repr = ''Enumeration('' @ replicate 200 (CHR ''x'') @ '')''"

definition sample_module :: "(py_exception + string) py_module" where
  "sample_module n =
     (if n = ''baz'' then Inr (Object (Inr baz_repr))
      else if n = ''big'' then Inr (Object (Inr big_repr))
      else if n = ''broken'' then Inr (Object (Inl (OtherError ''ValueError'')))
      else Inl AttributeError)"

definition sample_import :: "string \<Rightarrow> py_exception + (py_exception + string) py_module" where
  "sample_import m =
     (if m = ''bokeh.sphinxext.sample'' then Inr sample_module
      else if m = [] then Inl (OtherError ''ValueError'')
      else Inl ImportError)"

definition sample_repr_str :: "string \<Rightarrow> string" where
  "sample_repr_str s =
     (let q = (if CHR 0x27 \<in> set s \<and> CHR 0x22 \<notin> set s then CHR 0x22 else CHR 0x27)
      in q # concat (map (\<lambda>c. if c = q \<or> c = CHR 0x5C then [CHR 0x5C, c] else [c]) s) @ [q])"

definition sample_wrap :: "text_wrapper \<Rightarrow> string \<Rightarrow> string list" where
  "sample_wrap w s =
     (if length s \<le> width w then [initial_indent w @ s]
      else [initial_indent w @ take (width w) s, subsequent_indent w @ drop (width w) s])"

definition sample_text :: "enum_detail_kwargs \<Rightarrow> string" where
  "sample_text kw =
     ''.. data:: '' @ kw_name kw @ CHR 0x0A # ''    :module: '' @ kw_module kw
       @ CHR 0x0A # concat (map (\<lambda>l. CHR 0x0A # ''    '' @ l) (kw_content kw))
       @ CHR 0x0A # CHR 0x0A # ''    '' @ kw_shortrepr kw"

definition sample_render :: "enum_detail_kwargs \<Rightarrow> py_exception + string" where
  "sample_render kw = Inr (sample_text kw)"

definition sample_env :: "(py_exception + string, unit, string) environment" where
  "sample_env =
     \<lparr>import_module = sample_import,
      repr_object = (\<lambda>x. x),
      repr_str = sample_repr_str,
      textwrap_wrap = sample_wrap,
      ENUM_DETAIL_render = sample_render,
      nested_parse_with_titles = (\<lambda>st vl. Inr (map fst vl))\<rparr>"

definition sample_directive :: "string \<Rightarrow> (string \<rightharpoonup> string) \<Rightarrow> unit directive" where
  "sample_directive n opts =
     \<lparr>arguments = [n], options = opts, content = [''The allowed values.''], state = ()\<rparr>"

definition sample_options :: "string \<rightharpoonup> string" where
  "sample_options = [''module'' \<mapsto> ''bokeh.sphinxext.sample'']"

definition unknown_module_options :: "string \<rightharpoonup> string" where
  "unknown_module_options = [''module'' \<mapsto> ''no.such.module'']"

definition empty_module_options :: "string \<rightharpoonup> string" where
  "empty_module_options = [''module'' \<mapsto> []]"

definition no_options :: "string \<rightharpoonup> string" where
  "no_options = Map.empty"

text \<open>An attribute name with a backslash in it: \<^verbatim>\<open>a\b\<close>.\<close>

definition backslash_name :: string where
  "backslash_name = [CHR ''a'', CHR 0x5C, CHR ''b'']"

lemmas sample_defs =
  sample_env_def sample_import_def sample_module_def sample_directive_def
  sample_options_def unknown_module_options_def empty_module_options_def
  no_options_def sample_wrap_def sample_text_def sample_render_def sample_repr_str_def
  baz_repr_def big_repr_def backslash_name_def

section \<open>Properties\<close>

subsection \<open>Built-ins\<close>

lemma slice_to_length: "n \<le> length s \<Longrightarrow> length (slice_to n s) = n"
  by (simp add: slice_to_def)

lemma slice_last_length: "n \<le> length s \<Longrightarrow> length (slice_last n s) = n"
  by (simp add: slice_last_def)

lemma slice_last_suffix: "\<exists>pre. s = pre @ slice_last n s"
  unfolding slice_last_def by (metis append_take_drop_id)

lemma py_split_not_Nil: "py_split sep s \<noteq> []"
  by (induction s) (auto split: list.splits)

lemma py_join_Cons: "ls \<noteq> [] \<Longrightarrow> py_join sep (l # ls) = l @ sep # py_join sep ls"
  by (cases ls) simp_all

lemma py_join_split: "py_join sep (py_split sep s) = s"
proof (induction s)
  case Nil
  show ?case by simp
next
  case (Cons c cs)
  obtain l ls where split: "py_split sep cs = l # ls"
    using py_split_not_Nil [of sep cs] by (cases "py_split sep cs") auto
  show ?case
  proof (cases "c = sep")
    case True
    with Cons show ?thesis by (simp add: py_join_Cons py_split_not_Nil)
  next
    case False
    with Cons split show ?thesis by (cases ls) simp_all
  qed
qed

lemma py_split_no_sep: "l \<in> set (py_split sep s) \<Longrightarrow> sep \<notin> set l"
  by (induction s arbitrary: l) (auto split: if_splits list.splits)

lemma append_lines_map:
  "append_lines result lines = result @ map (\<lambda>l. (l, ''<bokeh-prop>'', 0)) lines"
  by (induction lines arbitrary: result) simp_all


subsection \<open>The keyword arguments after a successful import\<close>

lemma render_kwargs_imported:
  assumes "arguments d = name # rest"
    and "options d ''module'' = Some m"
    and "import_module env m = Inr md"
    and "getattr md name NoneObject = Inr enum"
    and "py_repr env enum = Inr r"
  shows "render_kwargs env d =
           Inr \<lparr>kw_name = name, kw_module = m, kw_content = content d,
                kw_shortrepr = fst (repr_forms env r),
                kw_fullrepr = snd (repr_forms env r)\<rparr>"
  using assms by (simp add: render_kwargs_def split: prod.splits)

lemma render_kwargs_InrD:
  assumes "render_kwargs env d = Inr kw"
  obtains name rest m md enum r where "arguments d = name # rest"
    and "options d ''module'' = Some m"
    and "import_module env m = Inr md"
    and "getattr md name NoneObject = Inr enum"
    and "py_repr env enum = Inr r"
  using assms
  by (auto simp: render_kwargs_def split: list.splits option.splits sum.splits py_exception.splits)

lemma repr_forms_long:
  "180 < length r \<Longrightarrow>
     repr_forms env r = (take 40 r @ '' .... '' @ drop (length r - 40) r,
                         PyList (textwrap_wrap env wrapper r))"
  by (simp add: repr_forms_def slice_to_def slice_last_def)

lemma repr_forms_short: "length r \<le> 180 \<Longrightarrow> repr_forms env r = (r, PyNone)"
  by (simp add: repr_forms_def)

lemma parse_rendered_eq:
  "parse_rendered env d kw =
     (case ENUM_DETAIL_render env kw of
        Inl e \<Rightarrow> Inl e
      | Inr rst_text \<Rightarrow>
          nested_parse_with_titles env (state d)
            (map (\<lambda>line. (line, ''<bokeh-prop>'', 0)) (py_split (CHR 0x0A) rst_text)))"
  by (simp add: parse_rendered_def append_lines_map split: sum.splits)

text \<open>The facts about the sample environment that the examples below start from.\<close>

lemma sample_arguments: "arguments (sample_directive n opts) = n # []"
  by (simp add: sample_directive_def)

lemma sample_module_option:
  "options (sample_directive n sample_options) ''module'' = Some ''bokeh.sphinxext.sample''"
  by (simp add: sample_directive_def sample_options_def)

lemma sample_import_ok:
  "import_module sample_env ''bokeh.sphinxext.sample'' = Inr sample_module"
  by (simp add: sample_env_def sample_import_def)

lemma sample_getattr:
  "getattr sample_module ''baz'' NoneObject = Inr (Object (Inr baz_repr))"
  "getattr sample_module ''big'' NoneObject = Inr (Object (Inr big_repr))"
  "getattr sample_module ''broken'' NoneObject = Inr (Object (Inl (OtherError ''ValueError'')))"
  by (simp_all add: getattr_def sample_module_def)

lemma sample_repr: "py_repr sample_env (Object x) = x"
  by (simp add: sample_env_def)

lemma sample_baz_kwargs:
  "render_kwargs sample_env (sample_directive ''baz'' sample_options) =
     Inr \<lparr>kw_name = ''baz'', kw_module = ''bokeh.sphinxext.sample'',
          kw_content = [''The allowed values.''],
          kw_shortrepr = baz_repr, kw_fullrepr = PyNone\<rparr>"
proof -
  have "length baz_repr \<le> 180"
    by (simp add: baz_repr_def)
  then show ?thesis
    using render_kwargs_imported [OF sample_arguments sample_module_option sample_import_ok
        sample_getattr(1) sample_repr]
    by (simp add: repr_forms_short sample_directive_def)
qed

subsection \<open>Where an exception can come from\<close>

lemma run_after_kwargs: "render_kwargs env d = Inr kw \<Longrightarrow> run env d = parse_rendered env d kw"
  by (simp add: run_def)

lemma run_Inl_iff:
  "(run env d = Inl e) =
     (render_kwargs env d = Inl e
      \<or> (\<exists>kw. render_kwargs env d = Inr kw \<and> parse_rendered env d kw = Inl e))"
  by (cases "render_kwargs env d") (simp_all add: run_def)

lemma parse_rendered_Inl_iff:
  "(parse_rendered env d kw = Inl e) =
     (ENUM_DETAIL_render env kw = Inl e
      \<or> (\<exists>rst_text. ENUM_DETAIL_render env kw = Inr rst_text
            \<and> nested_parse_with_titles env (state d)
                  (map (\<lambda>line. (line, ''<bokeh-prop>'', 0)) (py_split (CHR 0x0A) rst_text))
                = Inl e))"
  by (cases "ENUM_DETAIL_render env kw") (simp_all add: parse_rendered_eq)

lemma getattr_Inl_iff: "(getattr md n dflt = Inl e) = (md n = Inl e \<and> e \<noteq> AttributeError)"
  by (auto simp: getattr_def split: sum.splits py_exception.splits)

lemma render_kwargs_Inl_iff:
  assumes "arguments d = name # rest"
  shows "(render_kwargs env d = Inl e) =
     ((options d ''module'' = None \<and> e = KeyError ''module'')
      \<or> (\<exists>m x. options d ''module'' = Some m \<and> import_module env m = Inl x
            \<and> e = (if x = ImportError
                   then SphinxError (import_error_message env name m) else x))
      \<or> (\<exists>m md. options d ''module'' = Some m \<and> import_module env m = Inr md
            \<and> md name = Inl e \<and> e \<noteq> AttributeError)
      \<or> (\<exists>m md enum. options d ''module'' = Some m \<and> import_module env m = Inr md
            \<and> getattr md name NoneObject = Inr enum \<and> py_repr env enum = Inl e))"
proof (cases "options d ''module''")
  case None
  with assms show ?thesis
    by (auto simp: render_kwargs_def)
next
  case (Some m)
  show ?thesis
  proof (cases "import_module env m")
    case (Inl x)
    with Some assms show ?thesis
      by (cases x) (auto simp: render_kwargs_def)
  next
    case md: (Inr md)
    show ?thesis
    proof (cases "getattr md name NoneObject")
      case (Inl x)
      with md Some assms have rk: "render_kwargs env d = Inl x"
        by (simp add: render_kwargs_def)
      from Inl have "md name = Inl x" and "x \<noteq> AttributeError"
        by (simp_all add: getattr_Inl_iff)
      with rk Inl md Some show ?thesis
        by auto
    next
      case enum: (Inr enum)
      then have no: "\<not> (md name = Inl e \<and> e \<noteq> AttributeError)"
        using getattr_Inl_iff [of md name NoneObject e] by simp
      show ?thesis
      proof (cases "py_repr env enum")
        case (Inl x)
        with enum md Some assms have rk: "render_kwargs env d = Inl x"
          by (simp add: render_kwargs_def)
        with Inl enum md Some no show ?thesis
          by auto
      next
        case (Inr r)
        with enum md Some assms have "render_kwargs env d \<noteq> Inl e"
          by (simp add: render_kwargs_imported)
        with Inr enum md Some no show ?thesis
          by auto
      qed
    qed
  qed
qed

section \<open>The claims\<close>

text \<open>
  C1. When the \<^verbatim>\<open>repr\<close> of the attribute is longer than 180 characters, the short
  form passed to the template is its first 40 characters, then \<^verbatim>\<open>" .... "\<close>, then
  its last 40 characters, and the full form is the list of lines that the module's
  wrapper, whose \<^verbatim>\<open>subsequent_indent\<close> is four spaces, makes of it.
\<close>

theorem long_repr_abbreviated_and_wrapped:
  assumes "arguments d = name # rest"
    and "options d ''module'' = Some m"
    and "import_module env m = Inr md"
    and "getattr md name NoneObject = Inr enum"
    and "py_repr env enum = Inr r"
    and "180 < length r"
  shows "\<exists>kw. render_kwargs env d = Inr kw
           \<and> run env d = parse_rendered env d kw
           \<and> kw_shortrepr kw = take 40 r @ '' .... '' @ drop (length r - 40) r
           \<and> length (take 40 r) = 40
           \<and> length (drop (length r - 40) r) = 40
           \<and> kw_fullrepr kw = PyList (textwrap_wrap env wrapper r)
           \<and> subsequent_indent wrapper = ''    ''"
proof -
  let ?kw = "\<lparr>kw_name = name, kw_module = m, kw_content = content d,
              kw_shortrepr = take 40 r @ '' .... '' @ drop (length r - 40) r,
              kw_fullrepr = PyList (textwrap_wrap env wrapper r)\<rparr>"
  have kw: "render_kwargs env d = Inr ?kw"
    using assms by (simp add: render_kwargs_imported repr_forms_long)
  then have "run env d = parse_rendered env d ?kw"
    by (simp add: run_def)
  moreover have "length (take 40 r) = 40" "length (drop (length r - 40) r) = 40"
    using assms(6) by simp_all
  moreover have "subsequent_indent wrapper = ''    ''"
    by (simp add: wrapper_def)
  ultimately show ?thesis
    using kw by simp
qed

theorem long_repr_abbreviated_and_wrapped_witness:
  "arguments (sample_directive ''big'' sample_options) = ''big'' # []
   \<and> options (sample_directive ''big'' sample_options) ''module'' = Some ''bokeh.sphinxext.sample''
   \<and> import_module sample_env ''bokeh.sphinxext.sample'' = Inr sample_module
   \<and> getattr sample_module ''big'' NoneObject = Inr (Object (Inr big_repr))
   \<and> py_repr sample_env (Object (Inr big_repr)) = Inr big_repr
   \<and> 180 < length big_repr
   \<and> (\<exists>kw. render_kwargs sample_env (sample_directive ''big'' sample_options) = Inr kw
         \<and> kw_shortrepr kw = take 40 big_repr @ '' .... '' @ drop (length big_repr - 40) big_repr
         \<and> kw_fullrepr kw = PyList (textwrap_wrap sample_env wrapper big_repr))"
proof -
  note a = sample_arguments [of "''big''" sample_options]
  note b = sample_module_option [of "''big''"]
  note c = sample_import_ok
  note g = sample_getattr(2)
  note e = sample_repr [of "Inr big_repr"]
  have f: "180 < length big_repr"
    by (simp add: big_repr_def)
  from long_repr_abbreviated_and_wrapped [OF a b c g e f] a b c g e f
  show ?thesis by blast
qed

text \<open>
  C2, as amended. When the \<^verbatim>\<open>repr\<close> of the attribute has at most 180 characters,
  it is passed to the template unchanged as the short form, and the full form passed
  is \<^verbatim>\<open>None\<close>.
\<close>

theorem short_repr_verbatim:
  assumes "arguments d = name # rest"
    and "options d ''module'' = Some m"
    and "import_module env m = Inr md"
    and "getattr md name NoneObject = Inr enum"
    and "py_repr env enum = Inr r"
    and "length r \<le> 180"
  shows "render_kwargs env d =
           Inr \<lparr>kw_name = name, kw_module = m, kw_content = content d,
                kw_shortrepr = r, kw_fullrepr = PyNone\<rparr>"
  using assms by (simp add: render_kwargs_imported repr_forms_short)

theorem short_repr_verbatim_witness:
  "arguments (sample_directive ''baz'' sample_options) = ''baz'' # []
   \<and> options (sample_directive ''baz'' sample_options) ''module'' = Some ''bokeh.sphinxext.sample''
   \<and> import_module sample_env ''bokeh.sphinxext.sample'' = Inr sample_module
   \<and> getattr sample_module ''baz'' NoneObject = Inr (Object (Inr baz_repr))
   \<and> py_repr sample_env (Object (Inr baz_repr)) = Inr baz_repr
   \<and> length baz_repr \<le> 180
   \<and> render_kwargs sample_env (sample_directive ''baz'' sample_options) =
        Inr \<lparr>kw_name = ''baz'', kw_module = ''bokeh.sphinxext.sample'',
             kw_content = content (sample_directive ''baz'' sample_options),
             kw_shortrepr = baz_repr, kw_fullrepr = PyNone\<rparr>"
proof -
  note a = sample_arguments [of "''baz''" sample_options]
  note b = sample_module_option [of "''baz''"]
  note c = sample_import_ok
  note g = sample_getattr(1)
  note e = sample_repr [of "Inr baz_repr"]
  have f: "length baz_repr \<le> 180"
    by (simp add: baz_repr_def)
  from short_repr_verbatim [OF a b c g e f] a b c g e f
  show ?thesis by blast
qed

text \<open>
  C2 as written asks for the \<^verbatim>\<open>repr\<close> itself as the full form. For the attribute
  \<^verbatim>\<open>baz\<close> of the sample module, whose \<^verbatim>\<open>repr\<close> has 20 characters, the full
  form passed is \<^verbatim>\<open>None\<close>, which is not that string.
\<close>

theorem short_repr_full_form_counterexample:
  "py_repr sample_env (Object (Inr ''Enumeration(a, b, c)'')) = Inr ''Enumeration(a, b, c)''
   \<and> getattr sample_module ''baz'' NoneObject = Inr (Object (Inr ''Enumeration(a, b, c)''))
   \<and> length ''Enumeration(a, b, c)'' \<le> 180
   \<and> render_kwargs sample_env (sample_directive ''baz'' sample_options) =
        Inr \<lparr>kw_name = ''baz'', kw_module = ''bokeh.sphinxext.sample'',
             kw_content = [''The allowed values.''],
             kw_shortrepr = ''Enumeration(a, b, c)'', kw_fullrepr = PyNone\<rparr>
   \<and> PyNone \<noteq> PyStr ''Enumeration(a, b, c)''"
  by (simp add: render_kwargs_def repr_forms_def getattr_def sample_defs)

text \<open>
  C3, as amended. When the argument and the option are there and importing the module
  raises \<^verbatim>\<open>ImportError\<close>, \<^verbatim>\<open>run\<close> raises \<^verbatim>\<open>SphinxError\<close> and returns no
  node. The message is the fixed text of line 61 with the \<^verbatim>\<open>%r\<close> conversions of
  the attribute name and of the module name in it; it contains a name itself whenever
  the conversion of that name does.
\<close>

theorem import_failure_raises_SphinxError:
  assumes "arguments d = name # rest"
    and "options d ''module'' = Some m"
    and "import_module env m = Inl ImportError"
  shows "\<exists>msg. run env d = Inl (SphinxError msg)
           \<and> msg = ''Could not generate reference docs for '' @ repr_str env name
                     @ '': could not import module '' @ repr_str env m
           \<and> sublist (repr_str env name) msg
           \<and> sublist (repr_str env m) msg
           \<and> (sublist name (repr_str env name) \<longrightarrow> sublist name msg)
           \<and> (sublist m (repr_str env m) \<longrightarrow> sublist m msg)"
proof -
  let ?msg = "''Could not generate reference docs for '' @ repr_str env name
                @ '': could not import module '' @ repr_str env m"
  have run: "run env d = Inl (SphinxError ?msg)"
    using assms by (simp add: run_def render_kwargs_def import_error_message_def)
  have n: "sublist (repr_str env name) ?msg"
    by (rule sublist_appendI)
  have "sublist (repr_str env m)
          ((''Could not generate reference docs for '' @ repr_str env name
             @ '': could not import module '') @ repr_str env m)"
    by (rule sublist_append_leftI)
  then have m: "sublist (repr_str env m) ?msg"
    by simp
  from n m have "sublist name (repr_str env name) \<longrightarrow> sublist name ?msg"
    and "sublist m (repr_str env m) \<longrightarrow> sublist m ?msg"
    by (blast intro: sublist_order.order_trans)+
  with run n m show ?thesis by blast
qed

theorem import_failure_raises_SphinxError_witness:
  "arguments (sample_directive ''baz'' unknown_module_options) = ''baz'' # []
   \<and> options (sample_directive ''baz'' unknown_module_options) ''module''
        = Some ''no.such.module''
   \<and> import_module sample_env ''no.such.module'' = Inl ImportError
   \<and> sublist ''baz'' (repr_str sample_env ''baz'')
   \<and> sublist ''no.such.module'' (repr_str sample_env ''no.such.module'')
   \<and> (\<exists>msg. run sample_env (sample_directive ''baz'' unknown_module_options)
                = Inl (SphinxError msg)
          \<and> sublist ''baz'' msg \<and> sublist ''no.such.module'' msg)"
proof -
  note a = sample_arguments [of "''baz''" unknown_module_options]
  have b: "options (sample_directive ''baz'' unknown_module_options) ''module''
             = Some ''no.such.module''"
    by (simp add: sample_directive_def unknown_module_options_def)
  have c: "import_module sample_env ''no.such.module'' = Inl ImportError"
    by (simp add: sample_env_def sample_import_def)
  have n: "sublist ''baz'' (repr_str sample_env ''baz'')"
    by (simp add: sample_env_def sample_repr_str_def Let_def sublist_Cons_right)
  have "repr_str sample_env ''no.such.module'' = [CHR 0x27] @ ''no.such.module'' @ [CHR 0x27]"
    by (simp add: sample_env_def sample_repr_str_def Let_def)
  then have m: "sublist ''no.such.module'' (repr_str sample_env ''no.such.module'')"
    by (simp only: sublist_appendI)
  from import_failure_raises_SphinxError [OF a b c] a b c n m
  show ?thesis by blast
qed

text \<open>
  C3 as written speaks of every failing import and of the names themselves. With
  \<^verbatim>\<open>:module:\<close> left empty the import raises \<^verbatim>\<open>ValueError\<close>, which the handler
  for \<^verbatim>\<open>ImportError\<close> does not catch, and \<^verbatim>\<open>run\<close> raises that. With the
  attribute name \<^verbatim>\<open>a\b\<close> and a module that is not there, the message holds the
  name with its backslash doubled, and does not contain the name.
\<close>

theorem import_failure_counterexample:
  "import_module sample_env [] = Inl (OtherError ''ValueError'')
   \<and> run sample_env (sample_directive ''baz'' empty_module_options)
        = Inl (OtherError ''ValueError'')
   \<and> import_module sample_env ''no.such.module'' = Inl ImportError
   \<and> run sample_env (sample_directive backslash_name unknown_module_options)
        = Inl (SphinxError
                (import_error_message sample_env backslash_name ''no.such.module''))
   \<and> \<not> sublist backslash_name
          (import_error_message sample_env backslash_name ''no.such.module'')"
  by (simp add: run_def render_kwargs_def import_error_message_def sample_defs Let_def
        sublist_Cons_right)

text \<open>
  C4, as amended. With its required argument, \<^verbatim>\<open>run\<close> raises an exception in
  these situations and no other: the option \<^verbatim>\<open>module\<close> is missing, and the lookup
  raises \<^verbatim>\<open>KeyError\<close>; the import raises, and then an \<^verbatim>\<open>ImportError\<close> is
  replaced by the \<^verbatim>\<open>SphinxError\<close> of line 61 while any other exception passes
  through unchanged; or, after a successful import, the attribute access (with anything
  but \<^verbatim>\<open>AttributeError\<close>), the \<^verbatim>\<open>repr\<close> of the attribute, the template or the
  parser raises, and that exception passes through unchanged. When the keyword
  arguments are reached and the template and the parser return, \<^verbatim>\<open>run\<close> returns the
  parser's nodes.
\<close>

theorem run_error_paths:
  assumes "arguments d = name # rest"
  shows "((run env d = Inl e) =
           ((options d ''module'' = None \<and> e = KeyError ''module'')
            \<or> (\<exists>m x. options d ''module'' = Some m \<and> import_module env m = Inl x
                  \<and> e = (if x = ImportError
                         then SphinxError (import_error_message env name m) else x))
            \<or> (\<exists>m md. options d ''module'' = Some m \<and> import_module env m = Inr md
                  \<and> md name = Inl e \<and> e \<noteq> AttributeError)
            \<or> (\<exists>m md enum. options d ''module'' = Some m \<and> import_module env m = Inr md
                  \<and> getattr md name NoneObject = Inr enum \<and> py_repr env enum = Inl e)
            \<or> (\<exists>kw. render_kwargs env d = Inr kw \<and> ENUM_DETAIL_render env kw = Inl e)
            \<or> (\<exists>kw rst_text. render_kwargs env d = Inr kw
                  \<and> ENUM_DETAIL_render env kw = Inr rst_text
                  \<and> nested_parse_with_titles env (state d)
                        (map (\<lambda>line. (line, ''<bokeh-prop>'', 0))
                           (py_split (CHR 0x0A) rst_text))
                      = Inl e)))
         \<and> (\<forall>kw rst_text ns. render_kwargs env d = Inr kw
               \<longrightarrow> ENUM_DETAIL_render env kw = Inr rst_text
               \<longrightarrow> nested_parse_with_titles env (state d)
                     (map (\<lambda>line. (line, ''<bokeh-prop>'', 0))
                        (py_split (CHR 0x0A) rst_text))
                   = Inr ns
               \<longrightarrow> run env d = Inr ns)"
proof
  show "(run env d = Inl e) =
           ((options d ''module'' = None \<and> e = KeyError ''module'')
            \<or> (\<exists>m x. options d ''module'' = Some m \<and> import_module env m = Inl x
                  \<and> e = (if x = ImportError
                         then SphinxError (import_error_message env name m) else x))
            \<or> (\<exists>m md. options d ''module'' = Some m \<and> import_module env m = Inr md
                  \<and> md name = Inl e \<and> e \<noteq> AttributeError)
            \<or> (\<exists>m md enum. options d ''module'' = Some m \<and> import_module env m = Inr md
                  \<and> getattr md name NoneObject = Inr enum \<and> py_repr env enum = Inl e)
            \<or> (\<exists>kw. render_kwargs env d = Inr kw \<and> ENUM_DETAIL_render env kw = Inl e)
            \<or> (\<exists>kw rst_text. render_kwargs env d = Inr kw
                  \<and> ENUM_DETAIL_render env kw = Inr rst_text
                  \<and> nested_parse_with_titles env (state d)
                        (map (\<lambda>line. (line, ''<bokeh-prop>'', 0))
                           (py_split (CHR 0x0A) rst_text))
                      = Inl e))"
    unfolding run_Inl_iff parse_rendered_Inl_iff render_kwargs_Inl_iff [OF assms]
    by blast
next
  show "\<forall>kw rst_text ns. render_kwargs env d = Inr kw
               \<longrightarrow> ENUM_DETAIL_render env kw = Inr rst_text
               \<longrightarrow> nested_parse_with_titles env (state d)
                     (map (\<lambda>line. (line, ''<bokeh-prop>'', 0))
                        (py_split (CHR 0x0A) rst_text))
                   = Inr ns
               \<longrightarrow> run env d = Inr ns"
    by (simp add: run_after_kwargs parse_rendered_eq)
qed

theorem run_error_paths_witness:
  "arguments (sample_directive ''baz'' no_options) = ''baz'' # []
   \<and> options (sample_directive ''baz'' no_options) ''module'' = None
   \<and> run sample_env (sample_directive ''baz'' no_options) = Inl (KeyError ''module'')
   \<and> options (sample_directive ''baz'' empty_module_options) ''module'' = Some []
   \<and> import_module sample_env [] = Inl (OtherError ''ValueError'')
   \<and> run sample_env (sample_directive ''baz'' empty_module_options)
        = Inl (OtherError ''ValueError'')
   \<and> options (sample_directive ''broken'' sample_options) ''module''
        = Some ''bokeh.sphinxext.sample''
   \<and> import_module sample_env ''bokeh.sphinxext.sample'' = Inr sample_module
   \<and> getattr sample_module ''broken'' NoneObject
        = Inr (Object (Inl (OtherError ''ValueError'')))
   \<and> py_repr sample_env (Object (Inl (OtherError ''ValueError'')))
        = Inl (OtherError ''ValueError'')
   \<and> run sample_env (sample_directive ''broken'' sample_options)
        = Inl (OtherError ''ValueError'')
   \<and> render_kwargs sample_env (sample_directive ''baz'' sample_options) =
        Inr \<lparr>kw_name = ''baz'', kw_module = ''bokeh.sphinxext.sample'',
             kw_content = [''The allowed values.''],
             kw_shortrepr = baz_repr, kw_fullrepr = PyNone\<rparr>
   \<and> (\<exists>ns. run sample_env (sample_directive ''baz'' sample_options) = Inr ns)"
proof -
  note a1 = sample_arguments [of "''baz''" no_options]
  note a2 = sample_arguments [of "''baz''" empty_module_options]
  note a3 = sample_arguments [of "''broken''" sample_options]
  note a4 = sample_arguments [of "''baz''" sample_options]
  have b1: "options (sample_directive ''baz'' no_options) ''module'' = None"
    by (simp add: sample_directive_def no_options_def)
  have b2: "options (sample_directive ''baz'' empty_module_options) ''module'' = Some []"
    by (simp add: sample_directive_def empty_module_options_def)
  have c2: "import_module sample_env [] = Inl (OtherError ''ValueError'')"
    by (simp add: sample_env_def sample_import_def)
  note b3 = sample_module_option [of "''broken''"]
  note c3 = sample_import_ok
  note g3 = sample_getattr(3)
  note e3 = sample_repr [of "Inl (OtherError ''ValueError'')"]
  note kw = sample_baz_kwargs
  have t: "ENUM_DETAIL_render sample_env
             \<lparr>kw_name = ''baz'', kw_module = ''bokeh.sphinxext.sample'',
              kw_content = [''The allowed values.''],
              kw_shortrepr = baz_repr, kw_fullrepr = PyNone\<rparr>
           = Inr (sample_text
                    \<lparr>kw_name = ''baz'', kw_module = ''bokeh.sphinxext.sample'',
                     kw_content = [''The allowed values.''],
                     kw_shortrepr = baz_repr, kw_fullrepr = PyNone\<rparr>)"
    by (simp add: sample_env_def sample_render_def)
  have p: "nested_parse_with_titles sample_env st vl = Inr (map fst vl)" for st vl
    by (simp add: sample_env_def)
  note paths1 = run_error_paths [OF a1, where env = sample_env and e = "KeyError ''module''"]
  have r1: "run sample_env (sample_directive ''baz'' no_options) = Inl (KeyError ''module'')"
    by (rule iffD2 [OF conjunct1 [OF paths1]]) (rule disjI1, rule conjI, rule b1, rule refl)
  note paths2 =
    run_error_paths [OF a2, where env = sample_env and e = "OtherError ''ValueError''"]
  have d2: "\<exists>m x. options (sample_directive ''baz'' empty_module_options) ''module'' = Some m
              \<and> import_module sample_env m = Inl x
              \<and> OtherError ''ValueError''
                  = (if x = ImportError
                     then SphinxError (import_error_message sample_env ''baz'' m) else x)"
    by (rule exI [of _ "[]"], rule exI [of _ "OtherError ''ValueError''"])
      (simp add: b2 c2)
  have r2: "run sample_env (sample_directive ''baz'' empty_module_options)
              = Inl (OtherError ''ValueError'')"
    by (rule iffD2 [OF conjunct1 [OF paths2]]) (rule disjI2, rule disjI1, rule d2)
  note paths3 =
    run_error_paths [OF a3, where env = sample_env and e = "OtherError ''ValueError''"]
  have d3: "\<exists>m md enum. options (sample_directive ''broken'' sample_options) ''module'' = Some m
              \<and> import_module sample_env m = Inr md
              \<and> getattr md ''broken'' NoneObject = Inr enum
              \<and> py_repr sample_env enum = Inl (OtherError ''ValueError'')"
    by (intro exI conjI) (rule b3, rule c3, rule g3, rule e3)
  have r3: "run sample_env (sample_directive ''broken'' sample_options)
              = Inl (OtherError ''ValueError'')"
    by (rule iffD2 [OF conjunct1 [OF paths3]])
      (rule disjI2, rule disjI2, rule disjI2, rule disjI1, rule d3)
  note paths4 = run_error_paths [OF a4, where env = sample_env and e = IndexError]
  have r4: "\<exists>ns. run sample_env (sample_directive ''baz'' sample_options) = Inr ns"
    by (rule exI, rule conjunct2 [OF paths4, rule_format, OF kw t p])
  show ?thesis
    by (intro conjI) (rule a1 b1 r1 b2 c2 r2 b3 c3 g3 e3 r3 kw r4)+
qed

text \<open>
  C4 as written allows one exception only, the \<^verbatim>\<open>SphinxError\<close> of a failed import,
  and none once the import has succeeded. A directive without the option
  \<^verbatim>\<open>module\<close> makes \<^verbatim>\<open>self.options['module']\<close> raise \<^verbatim>\<open>KeyError\<close>, which
  the handler for \<^verbatim>\<open>ImportError\<close> does not catch; and an attribute whose
  \<^verbatim>\<open>__repr__\<close> raises \<^verbatim>\<open>ValueError\<close> makes \<^verbatim>\<open>run\<close> raise it after a
  successful import, since line 65 is outside the \<^verbatim>\<open>try\<close>.
\<close>

theorem single_error_path_counterexample:
  "run sample_env (sample_directive ''baz'' no_options) = Inl (KeyError ''module'')
   \<and> import_module sample_env ''bokeh.sphinxext.sample'' = Inr sample_module
   \<and> run sample_env (sample_directive ''broken'' sample_options)
        = Inl (OtherError ''ValueError'')"
  by (simp add: run_def render_kwargs_def getattr_def sample_defs)

text \<open>
  C5. Whenever \<^verbatim>\<open>run\<close> returns nodes, the template was rendered with keyword
  arguments whose \<^verbatim>\<open>content\<close> is the directive's \<^verbatim>\<open>self.content\<close>, and the
  nodes are what the parser made of the lines of that rendered text.
\<close>

theorem content_passed_unchanged:
  assumes "run env d = Inr ns"
  shows "\<exists>kw rst_text. render_kwargs env d = Inr kw
           \<and> kw_content kw = content d
           \<and> ENUM_DETAIL_render env kw = Inr rst_text
           \<and> nested_parse_with_titles env (state d)
                 (map (\<lambda>line. (line, ''<bokeh-prop>'', 0)) (py_split (CHR 0x0A) rst_text))
               = Inr ns"
proof -
  from assms obtain kw where kw: "render_kwargs env d = Inr kw"
    and ns: "parse_rendered env d kw = Inr ns"
    by (auto simp: run_def split: sum.splits)
  from ns obtain rst_text where rendered: "ENUM_DETAIL_render env kw = Inr rst_text"
    and nodes: "nested_parse_with_titles env (state d)
                  (map (\<lambda>line. (line, ''<bokeh-prop>'', 0)) (py_split (CHR 0x0A) rst_text))
                = Inr ns"
    by (auto simp: parse_rendered_eq split: sum.splits)
  from kw obtain name rest m md enum r where "arguments d = name # rest"
    and "options d ''module'' = Some m" and "import_module env m = Inr md"
    and "getattr md name NoneObject = Inr enum" and "py_repr env enum = Inr r"
    by (rule render_kwargs_InrD)
  then have "kw_content kw = content d"
    using kw by (auto simp: render_kwargs_imported)
  with kw rendered nodes show ?thesis by blast
qed

theorem content_passed_unchanged_witness:
  "run sample_env (sample_directive ''baz'' sample_options) =
     Inr [''.. data:: baz'', ''    :module: bokeh.sphinxext.sample'', [],
          ''    The allowed values.'', [], ''    Enumeration(a, b, c)'']
   \<and> content (sample_directive ''baz'' sample_options) = [''The allowed values.'']
   \<and> (\<exists>kw rst_text.
         render_kwargs sample_env (sample_directive ''baz'' sample_options) = Inr kw
         \<and> kw_content kw = [''The allowed values.'']
         \<and> ENUM_DETAIL_render sample_env kw = Inr rst_text)"
proof -
  have r: "run sample_env (sample_directive ''baz'' sample_options) =
     Inr [''.. data:: baz'', ''    :module: bokeh.sphinxext.sample'', [],
          ''    The allowed values.'', [], ''    Enumeration(a, b, c)'']"
    by (simp add: run_def parse_rendered_def render_kwargs_def repr_forms_def getattr_def
          sample_defs)
  have c: "content (sample_directive ''baz'' sample_options) = [''The allowed values.'']"
    by (simp add: sample_directive_def)
  from content_passed_unchanged [OF r] obtain kw rst_text
    where k: "render_kwargs sample_env (sample_directive ''baz'' sample_options) = Inr kw"
      and kc: "kw_content kw = content (sample_directive ''baz'' sample_options)"
      and t: "ENUM_DETAIL_render sample_env kw = Inr rst_text"
    by (elim exE conjE)
  from kc have kc': "kw_content kw = [''The allowed values.'']"
    by (simp only: c)
  have "\<exists>kw rst_text.
         render_kwargs sample_env (sample_directive ''baz'' sample_options) = Inr kw
         \<and> kw_content kw = [''The allowed values.'']
         \<and> ENUM_DETAIL_render sample_env kw = Inr rst_text"
    by (intro exI conjI) (rule k, rule kc', rule t)
  then show ?thesis
    by (intro conjI) (rule r, rule c)
qed

text \<open>
  C6. Without the option \<^verbatim>\<open>module\<close>, \<^verbatim>\<open>run\<close> raises and returns no node: the
  lookup \<^verbatim>\<open>self.options['module']\<close> raises \<^verbatim>\<open>KeyError\<close> (after
  \<^verbatim>\<open>self.arguments[0]\<close>, which raises first on an empty argument list).
\<close>

theorem missing_module_option_fails:
  assumes "options d ''module'' = None"
  shows "run env d = Inl (if arguments d = [] then IndexError else KeyError ''module'')"
  using assms by (simp add: run_def render_kwargs_def split: list.splits)

theorem missing_module_option_fails_witness:
  "options (sample_directive ''big'' no_options) ''module'' = None
   \<and> arguments (sample_directive ''big'' no_options) \<noteq> []
   \<and> run sample_env (sample_directive ''big'' no_options) = Inl (KeyError ''module'')"
proof -
  have a: "options (sample_directive ''big'' no_options) ''module'' = None"
    by (simp add: sample_directive_def no_options_def)
  have b: "arguments (sample_directive ''big'' no_options) \<noteq> []"
    by (simp add: sample_directive_def)
  from missing_module_option_fails [OF a, of sample_env] a b show ?thesis by simp
qed

text \<open>
  C7. When the argument and the option are there, the import succeeds and the
  attribute has a \<^verbatim>\<open>repr\<close>, \<^verbatim>\<open>run\<close> is one straight line: look the attribute up
  in the imported module, take its \<^verbatim>\<open>repr\<close>, form the short and the full
  representation, render the template with them, split the text at newlines, and return
  the nodes the parser makes of these lines (each entered in the \<^verbatim>\<open>ViewList\<close> with
  source \<^verbatim>\<open><bokeh-prop>\<close>). An exception of the template or of the parser is the
  only other outcome.
\<close>

theorem run_linear_sequence:
  assumes "arguments d = name # rest"
    and "options d ''module'' = Some m"
    and "import_module env m = Inr md"
    and "getattr md name NoneObject = Inr enum"
    and "py_repr env enum = Inr r"
  shows "run env d =
           (case ENUM_DETAIL_render env
                   \<lparr>kw_name = name, kw_module = m, kw_content = content d,
                    kw_shortrepr =
                      (if 180 < length r
                       then take 40 r @ '' .... '' @ drop (length r - 40) r
                       else r),
                    kw_fullrepr =
                      (if 180 < length r
                       then PyList (textwrap_wrap env wrapper r)
                       else PyNone)\<rparr> of
              Inl e \<Rightarrow> Inl e
            | Inr rst_text \<Rightarrow>
                nested_parse_with_titles env (state d)
                  (map (\<lambda>line. (line, ''<bokeh-prop>'', 0))
                     (py_split (CHR 0x0A) rst_text)))"
proof (cases "180 < length r")
  case True
  with assms show ?thesis
    by (simp add: run_def parse_rendered_eq render_kwargs_imported repr_forms_long)
next
  case False
  with assms show ?thesis
    by (simp add: run_def parse_rendered_eq render_kwargs_imported repr_forms_short)
qed

theorem run_linear_sequence_witness:
  "arguments (sample_directive ''big'' sample_options) = ''big'' # []
   \<and> options (sample_directive ''big'' sample_options) ''module'' = Some ''bokeh.sphinxext.sample''
   \<and> import_module sample_env ''bokeh.sphinxext.sample'' = Inr sample_module
   \<and> getattr sample_module ''big'' NoneObject = Inr (Object (Inr big_repr))
   \<and> py_repr sample_env (Object (Inr big_repr)) = Inr big_repr
   \<and> run sample_env (sample_directive ''big'' sample_options) =
        (case ENUM_DETAIL_render sample_env
                \<lparr>kw_name = ''big'', kw_module = ''bokeh.sphinxext.sample'',
                 kw_content = content (sample_directive ''big'' sample_options),
                 kw_shortrepr =
                   (if 180 < length big_repr
                    then take 40 big_repr @ '' .... ''
                           @ drop (length big_repr - 40) big_repr
                    else big_repr),
                 kw_fullrepr =
                   (if 180 < length big_repr
                    then PyList (textwrap_wrap sample_env wrapper big_repr)
                    else PyNone)\<rparr> of
           Inl e \<Rightarrow> Inl e
         | Inr rst_text \<Rightarrow>
             nested_parse_with_titles sample_env
               (state (sample_directive ''big'' sample_options))
               (map (\<lambda>line. (line, ''<bokeh-prop>'', 0))
                  (py_split (CHR 0x0A) rst_text)))"
proof -
  note a = sample_arguments [of "''big''" sample_options]
  note b = sample_module_option [of "''big''"]
  note c = sample_import_ok
  note g = sample_getattr(2)
  note e = sample_repr [of "Inr big_repr"]
  show ?thesis
    by (intro conjI) (rule a, rule b, rule c, rule g, rule e,
      rule run_linear_sequence [OF a b c g e])
qed



text \<open>
  C9. Whatever short form \<^verbatim>\<open>run\<close> passes to the template has at most 180
  characters: 86 of them when the \<^verbatim>\<open>repr\<close> of the attribute is longer than 180,
  and as many as the \<^verbatim>\<open>repr\<close> otherwise.
\<close>

theorem shortrepr_length_bound:
  assumes "render_kwargs env d = Inr kw"
  shows "length (kw_shortrepr kw) \<le> 180
         \<and> (\<exists>name rest m md enum r.
               arguments d = name # rest \<and> options d ''module'' = Some m
               \<and> import_module env m = Inr md
               \<and> getattr md name NoneObject = Inr enum
               \<and> py_repr env enum = Inr r
               \<and> (180 < length r \<longrightarrow> length (kw_shortrepr kw) = 86)
               \<and> (length r \<le> 180 \<longrightarrow> length (kw_shortrepr kw) = length r))"
proof -
  from assms obtain name rest m md enum r where a: "arguments d = name # rest"
    and b: "options d ''module'' = Some m" and c: "import_module env m = Inr md"
    and g: "getattr md name NoneObject = Inr enum" and e: "py_repr env enum = Inr r"
    by (rule render_kwargs_InrD)
  have short: "kw_shortrepr kw = fst (repr_forms env r)"
    using assms render_kwargs_imported [OF a b c g e] by auto
  have long_case: "length (kw_shortrepr kw) = 86" if "180 < length r"
    using that by (simp add: short repr_forms_long)
  have short_case: "length (kw_shortrepr kw) = length r" if "length r \<le> 180"
    using that by (simp add: short repr_forms_short)
  have "length (kw_shortrepr kw) \<le> 180"
    using long_case short_case by (cases "180 < length r") simp_all
  with a b c g e long_case short_case show ?thesis
    by blast
qed

theorem shortrepr_length_bound_witness:
  "render_kwargs sample_env (sample_directive ''big'' sample_options) =
     Inr \<lparr>kw_name = ''big'', kw_module = ''bokeh.sphinxext.sample'',
          kw_content = [''The allowed values.''],
          kw_shortrepr = take 40 big_repr @ '' .... '' @ drop (length big_repr - 40) big_repr,
          kw_fullrepr = PyList (sample_wrap wrapper big_repr)\<rparr>
   \<and> 180 < length big_repr
   \<and> length (take 40 big_repr @ '' .... '' @ drop (length big_repr - 40) big_repr) \<le> 180"
proof -
  have big: "180 < length big_repr"
    by (simp add: big_repr_def)
  have kw: "render_kwargs sample_env (sample_directive ''big'' sample_options) =
     Inr \<lparr>kw_name = ''big'', kw_module = ''bokeh.sphinxext.sample'',
          kw_content = [''The allowed values.''],
          kw_shortrepr = take 40 big_repr @ '' .... '' @ drop (length big_repr - 40) big_repr,
          kw_fullrepr = PyList (sample_wrap wrapper big_repr)\<rparr>"
    using render_kwargs_imported [OF sample_arguments sample_module_option sample_import_ok
        sample_getattr(2) sample_repr] big
    by (simp add: repr_forms_long sample_directive_def sample_env_def)
  from shortrepr_length_bound [OF kw] kw big show ?thesis by simp
qed

text \<open>
  C10. The full form passed to the template is \<^verbatim>\<open>None\<close> when the \<^verbatim>\<open>repr\<close> of
  the attribute has at most 180 characters, and the wrapped list of lines when it has
  more: a full listing is there exactly when the \<^verbatim>\<open>repr\<close> exceeds 180 characters.
\<close>

theorem fullrepr_None_unless_long:
  assumes "arguments d = name # rest"
    and "options d ''module'' = Some m"
    and "import_module env m = Inr md"
    and "getattr md name NoneObject = Inr enum"
    and "py_repr env enum = Inr r"
  shows "\<exists>kw. render_kwargs env d = Inr kw
           \<and> (length r \<le> 180 \<longrightarrow> kw_fullrepr kw = PyNone)
           \<and> (180 < length r \<longrightarrow> kw_fullrepr kw = PyList (textwrap_wrap env wrapper r))
           \<and> ((kw_fullrepr kw \<noteq> PyNone) = (180 < length r))"
proof (cases "180 < length r")
  case True
  with assms show ?thesis
    by (simp add: render_kwargs_imported repr_forms_long)
next
  case False
  with assms show ?thesis
    by (simp add: render_kwargs_imported repr_forms_short)
qed

theorem fullrepr_None_unless_long_witness:
  "arguments (sample_directive ''baz'' sample_options) = ''baz'' # []
   \<and> options (sample_directive ''baz'' sample_options) ''module'' = Some ''bokeh.sphinxext.sample''
   \<and> import_module sample_env ''bokeh.sphinxext.sample'' = Inr sample_module
   \<and> getattr sample_module ''baz'' NoneObject = Inr (Object (Inr baz_repr))
   \<and> py_repr sample_env (Object (Inr baz_repr)) = Inr baz_repr
   \<and> length baz_repr \<le> 180
   \<and> (\<exists>kw. render_kwargs sample_env (sample_directive ''baz'' sample_options) = Inr kw
         \<and> kw_fullrepr kw = PyNone)"
proof -
  note a = sample_arguments [of "''baz''" sample_options]
  note b = sample_module_option [of "''baz''"]
  note c = sample_import_ok
  note g = sample_getattr(1)
  note e = sample_repr [of "Inr baz_repr"]
  have f: "length baz_repr \<le> 180"
    by (simp add: baz_repr_def)
  from fullrepr_None_unless_long [OF a b c g e] a b c g e f
  show ?thesis by blast
qed

end
